theory Spec2Isabelle
  imports Complex_Main "HOL-Library.Multiset"
begin

section \<open>The playback core of \<^verbatim>\<open>rhytmiq/media_player.py\<close>\<close>

text \<open>
  The class \<^verbatim>\<open>MediaPlayer\<close> is embedded as a record of its attributes, each method as a
  function from the record to a result. An exception is a value: \<open>Inl (e, s)\<close> says that
  \<open>e\<close> was raised and that the object was left as \<open>s\<close> at that moment (Python does not
  roll an object back when a method raises), \<open>Inr s\<close> is a normal return.
\<close>

subsection \<open>Data\<close>

datatype State = STOPPED | PLAYING | PAUSED

datatype Loop = Loop_NONE | Loop_ONE | Loop_ALL

datatype error = KeyError | ValueError | TypeError | RecursionError

text \<open>
  Calls to the collaborators that are not part of the class (the audio output of
  \<^verbatim>\<open>utils.playback\<close>, \<^verbatim>\<open>time.sleep\<close>, Textual's \<^verbatim>\<open>notify\<close>, the playlist widget)
  are recorded, in order, in the field \<open>trace\<close>.
\<close>

datatype event =
    Ev_play string
  | Ev_stop
  | Ev_pause
  | Ev_unpause
  | Ev_decrease_volume real
  | Ev_increase_volume real
  | Ev_notify string
  | Ev_sleep real
  | Ev_playlist_clear
  | Ev_playlist_populate

type_synonym media_info = "string \<times> string \<times> string \<times> real"

record player =
  audio_info :: media_info
  state :: State
  shuffle :: bool
  loop :: Loop
  volume :: real
  playing_song :: "string option"
  current_playlist :: "(string \<times> string) list option"
  current_playlist_media :: "string \<rightharpoonup> string"
  playing_from_playlist :: bool
  monitor_alive :: bool
  running :: bool
  state_switch :: bool
  songs :: "(string \<times> string) list"
  trace :: "event list"

text \<open>
  \<open>songs\<close> is \<^verbatim>\<open>self.playlist.songs\<close>, a Python dict from title to path: an association
  list in insertion order, whose keys are distinct in every dict. \<open>audio_info\<close> groups
  \<^verbatim>\<open>audio_title\<close>, \<^verbatim>\<open>artist_name\<close>, \<^verbatim>\<open>album\<close> and \<^verbatim>\<open>duration\<close>, which are only ever
  assigned together. \<open>monitor_alive\<close> stands for
  \<^verbatim>\<open>self.monitor_thread is not None and self.monitor_thread.is_alive()\<close>.

  The environment holds what the module imports from elsewhere:
  \<^verbatim>\<open>utils.playback.play\<close> (its answer may depend on everything that happened before, so
  it takes the trace), \<^verbatim>\<open>utils.helpers.get_metadata\<close> and the list that
  \<^verbatim>\<open>random.shuffle\<close> leaves behind.
\<close>

record env =
  play :: "event list \<Rightarrow> string \<Rightarrow> bool"
  get_metadata :: "string \<Rightarrow> media_info"
  shuffle_list :: "(string \<times> string) list \<Rightarrow> (string \<times> string) list"

type_synonym result = "(error \<times> player) + player"

definition init_player :: player where
  "init_player =
     \<lparr> audio_info = (''No title available'', ''Unknown artist'', ''No album info'', 0),
       state = STOPPED, shuffle = False, loop = Loop_NONE, volume = 1 / 2,
       playing_song = None, current_playlist = None, current_playlist_media = Map.empty,
       playing_from_playlist = False, monitor_alive = False, running = True,
       state_switch = False, songs = [], trace = [] \<rparr>"

subsection \<open>Python primitives\<close>

text \<open>\<^verbatim>\<open>not media\<close> for \<^verbatim>\<open>None\<close> and for the empty string.\<close>

fun truthy :: "string option \<Rightarrow> bool" where
  "truthy None = False"
| "truthy (Some p) = (p \<noteq> [])"

text \<open>\<^verbatim>\<open>list.index\<close>: the first position, \<open>None\<close> where Python raises \<^verbatim>\<open>ValueError\<close>.\<close>

fun index_of :: "'a list \<Rightarrow> 'a \<Rightarrow> nat option" where
  "index_of [] x = None"
| "index_of (y # ys) x = (if y = x then Some 0 else map_option Suc (index_of ys x))"

text \<open>\<^verbatim>\<open>d[k] = v\<close> and \<^verbatim>\<open>dict(items)\<close> on insertion-ordered dicts.\<close>

fun dict_set :: "('k \<times> 'v) list \<Rightarrow> 'k \<Rightarrow> 'v \<Rightarrow> ('k \<times> 'v) list" where
  "dict_set [] k v = [(k, v)]"
| "dict_set ((k', v') # xs) k v =
     (if k' = k then (k', v) # xs else (k', v') # dict_set xs k v)"

definition dict_of :: "('k \<times> 'v) list \<Rightarrow> ('k \<times> 'v) list" where
  "dict_of items = foldl (\<lambda>d (k, v). dict_set d k v) [] items"

definition emit :: "event \<Rightarrow> player \<Rightarrow> player" where
  "emit e s = s\<lparr>trace := trace s @ [e]\<rparr>"

subsection \<open>Playing, next and previous\<close>

text \<open>
  \<^verbatim>\<open>play_song\<close> calls \<^verbatim>\<open>next_song\<close> when the output rejects the media and \<^verbatim>\<open>next_song\<close>
  calls \<^verbatim>\<open>play_song\<close>; nothing in the source bounds that recursion. The first argument
  after the environment is the number of nested calls the Python stack still has room
  for; at zero the interpreter raises \<^verbatim>\<open>RecursionError\<close>.
\<close>

fun play_song :: "env \<Rightarrow> nat \<Rightarrow> string option \<Rightarrow> bool \<Rightarrow> player \<Rightarrow> result"
and next_song :: "env \<Rightarrow> nat \<Rightarrow> player \<Rightarrow> result" where
  "play_song E 0 media from_playlist s = Inl (RecursionError, s)"
| "play_song E (Suc d) media from_playlist s =
     (if \<not> truthy media then Inr s
      else
        let m = the media;
            s1 = s\<lparr>state_switch := True, playing_from_playlist := from_playlist\<rparr>;
            ok = play E (trace s1) m;
            s2 = emit (Ev_play m) s1
        in if ok then
             Inr (s2\<lparr>state := PLAYING, playing_song := Some m,
                     audio_info := get_metadata E m, monitor_alive := True,
                     state_switch := False\<rparr>)
           else
             (case next_song E d s2 of
                Inl err \<Rightarrow> Inl err
              | Inr s3 \<Rightarrow>
                  Inr ((emit (Ev_notify ''Unable to play the media file.'') s3)
                         \<lparr>state_switch := False\<rparr>)))"
| "next_song E 0 s = Inl (RecursionError, s)"
| "next_song E (Suc d) s =
     (if \<not> truthy (playing_song s) then Inr s
      else if \<not> playing_from_playlist s \<and> loop s = Loop_NONE then
        Inr ((emit Ev_stop s)\<lparr>state := STOPPED\<rparr>)
      else if playing_from_playlist s \<and> loop s \<noteq> Loop_ONE then
        (let titles = map fst (songs s) in
         case current_playlist_media s ''title'' of
           None \<Rightarrow> Inl (KeyError, s)
         | Some title \<Rightarrow>
            (case index_of titles title of
               None \<Rightarrow> Inl (ValueError, s)
             | Some current_index \<Rightarrow>
                (case (if current_index + 1 < length titles then Some (current_index + 1)
                       else if loop s = Loop_ALL then Some 0
                       else None) of
                   None \<Rightarrow> Inr ((emit Ev_stop s)\<lparr>state := STOPPED\<rparr>)
                 | Some new_index \<Rightarrow>
                    (let next_song_title = titles ! new_index in
                     case map_of (songs s) next_song_title of
                       None \<Rightarrow> Inl (KeyError, s)
                     | Some next_song_path \<Rightarrow>
                         play_song E d (Some next_song_path) (playing_from_playlist s)
                           (s\<lparr>current_playlist_media :=
                                (current_playlist_media s)
                                  (''title'' \<mapsto> next_song_title,
                                   ''path'' \<mapsto> next_song_path)\<rparr>)))))
      else play_song E d (playing_song s) (playing_from_playlist s) s)"

text \<open>
  \<^verbatim>\<open>previous_song\<close> has no test of \<^verbatim>\<open>self.playing_song\<close>; otherwise it mirrors
  \<^verbatim>\<open>next_song\<close>.
\<close>

definition previous_song :: "env \<Rightarrow> nat \<Rightarrow> player \<Rightarrow> result" where
  "previous_song E d s =
     (if \<not> playing_from_playlist s \<and> loop s = Loop_NONE then
        Inr ((emit Ev_stop s)\<lparr>state := STOPPED\<rparr>)
      else if playing_from_playlist s \<and> loop s \<noteq> Loop_ONE then
        (let titles = map fst (songs s) in
         case current_playlist_media s ''title'' of
           None \<Rightarrow> Inl (KeyError, s)
         | Some title \<Rightarrow>
            (case index_of titles title of
               None \<Rightarrow> Inl (ValueError, s)
             | Some current_index \<Rightarrow>
                (case (if current_index > 0 then Some (current_index - 1)
                       else if loop s = Loop_ALL then Some (length titles - 1)
                       else None) of
                   None \<Rightarrow> Inr ((emit Ev_stop s)\<lparr>state := STOPPED\<rparr>)
                 | Some new_index \<Rightarrow>
                    (let previous_song_title = titles ! new_index in
                     case map_of (songs s) previous_song_title of
                       None \<Rightarrow> Inl (KeyError, s)
                     | Some previous_song_path \<Rightarrow>
                         play_song E d (Some previous_song_path) (playing_from_playlist s)
                           (s\<lparr>current_playlist_media :=
                                (current_playlist_media s)
                                  (''title'' \<mapsto> previous_song_title,
                                   ''path'' \<mapsto> previous_song_path)\<rparr>)))))
      else play_song E d (playing_song s) (playing_from_playlist s) s)"

definition play_from_playlist :: "env \<Rightarrow> nat \<Rightarrow> string \<times> string \<Rightarrow> player \<Rightarrow> result" where
  "play_from_playlist E d media s =
     (let s1 = s\<lparr>current_playlist_media :=
                   (current_playlist_media s)(''title'' \<mapsto> fst media, ''path'' \<mapsto> snd media)\<rparr>
      in play_song E d (current_playlist_media s1 ''path'') True s1)"

subsection \<open>The watchdog\<close>

definition handle_song_end :: "env \<Rightarrow> nat \<Rightarrow> player \<Rightarrow> result" where
  "handle_song_end E d s =
     (if state s = PAUSED then Inr s
      else if \<not> playing_from_playlist s then
        (if loop s \<noteq> Loop_NONE then play_song E d (playing_song s) False s
         else Inr (s\<lparr>state := STOPPED\<rparr>))
      else if songs s = [] then Inr (s\<lparr>state := STOPPED\<rparr>)
      else next_song E d s)"

text \<open>
  One pass through the body of the \<^verbatim>\<open>while self.running\<close> loop of
  \<^verbatim>\<open>monitor_song_end\<close>; \<open>busy\<close> is what \<^verbatim>\<open>pygame.mixer.music.get_busy()\<close> answers
  in that pass. The second \<^verbatim>\<open>sleep(0.5)\<close> is inside the \<^verbatim>\<open>if\<close>, after the handler.
\<close>

definition monitor_iteration :: "env \<Rightarrow> nat \<Rightarrow> bool \<Rightarrow> player \<Rightarrow> result" where
  "monitor_iteration E d busy s =
     (if state_switch s then Inr (emit (Ev_sleep (1 / 2)) s)
      else if state s = PLAYING \<and> \<not> busy then
        (case handle_song_end E d s of
           Inl err \<Rightarrow> Inl err
         | Inr s1 \<Rightarrow> Inr (emit (Ev_sleep (1 / 2)) s1))
      else Inr s)"

text \<open>
  The loop over the answers of the output, one per pass. It leaves when \<^verbatim>\<open>self.running\<close>
  is false or the handler raises; the list of answers running out is the moment of
  observation, not an exit of the loop.
\<close>

fun monitor_song_end :: "env \<Rightarrow> nat \<Rightarrow> bool list \<Rightarrow> player \<Rightarrow> result" where
  "monitor_song_end E d [] s = Inr s"
| "monitor_song_end E d (busy # rest) s =
     (if \<not> running s then Inr s
      else case monitor_iteration E d busy s of
             Inl err \<Rightarrow> Inl err
           | Inr s1 \<Rightarrow> monitor_song_end E d rest s1)"

subsection \<open>Commands\<close>

definition toggle_play_state :: "env \<Rightarrow> nat \<Rightarrow> player \<Rightarrow> result" where
  "toggle_play_state E d s =
     (if state s = PLAYING then Inr ((emit Ev_pause s)\<lparr>state := PAUSED\<rparr>)
      else if state s = PAUSED then Inr ((emit Ev_unpause s)\<lparr>state := PLAYING\<rparr>)
      else if state s = STOPPED \<and> playing_song s \<noteq> None then
        play_song E d (playing_song s) (playing_from_playlist s) s
      else Inr s)"

definition change_loop_state :: "player \<Rightarrow> player" where
  "change_loop_state s =
     (if loop s = Loop_NONE then s\<lparr>loop := Loop_ONE\<rparr>
      else if loop s = Loop_ONE then s\<lparr>loop := Loop_ALL\<rparr>
      else s\<lparr>loop := Loop_NONE\<rparr>)"

text \<open>
  \<^verbatim>\<open>dict(self.current_playlist)\<close> raises \<^verbatim>\<open>TypeError\<close> on \<^verbatim>\<open>None\<close>.
  \<^verbatim>\<open>self.playlist.clear()\<close> and \<^verbatim>\<open>populate()\<close> belong to the playlist widget, which
  redraws its rows from \<open>songs\<close>; they are recorded and leave \<open>songs\<close> alone.
\<close>

definition toggle_shuffle_state :: "env \<Rightarrow> player \<Rightarrow> result" where
  "toggle_shuffle_state E s =
     (if songs s = [] then Inr s
      else
        (case (if \<not> shuffle s then
                 (let current = songs s;
                      shuffled_playlist = shuffle_list E current
                  in Inr (s\<lparr>current_playlist := Some current,
                            songs := dict_of shuffled_playlist\<rparr>))
               else
                 (case current_playlist s of
                    None \<Rightarrow> Inl (TypeError, s)
                  | Some original \<Rightarrow> Inr (s\<lparr>songs := dict_of original\<rparr>))) of
           Inl err \<Rightarrow> Inl err
         | Inr s1 \<Rightarrow>
             Inr ((emit Ev_playlist_populate (emit Ev_playlist_clear s1))
                    \<lparr>shuffle := \<not> shuffle s1\<rparr>)))"

text \<open>\<^verbatim>\<open>VOLUME_STEP\<close> is a constant of \<^verbatim>\<open>utils.constants\<close>: a parameter here.\<close>

definition decrease_media_volume :: "real \<Rightarrow> player \<Rightarrow> player" where
  "decrease_media_volume VOLUME_STEP s =
     (let s1 = emit (Ev_decrease_volume VOLUME_STEP) s
      in s1\<lparr>volume := (if volume s1 > VOLUME_STEP then volume s1 - VOLUME_STEP else 0)\<rparr>)"

definition increase_media_volume :: "real \<Rightarrow> player \<Rightarrow> player" where
  "increase_media_volume VOLUME_STEP s =
     (let s1 = emit (Ev_increase_volume VOLUME_STEP) s
      in s1\<lparr>volume := (if volume s1 + VOLUME_STEP < 1 then volume s1 + VOLUME_STEP else 1)\<rparr>)"

text \<open>
  The second statement of \<^verbatim>\<open>action_stop_song\<close> is the comparison
  \<^verbatim>\<open>self.state == State.STOPPED\<close>, whose value is dropped: nothing is assigned.
\<close>

definition action_stop_song :: "player \<Rightarrow> player" where
  "action_stop_song s = emit Ev_stop s"

subsection \<open>The command surface\<close>

text \<open>
  The key bindings and buttons of the widget (\<^verbatim>\<open>BINDINGS\<close>, the \<^verbatim>\<open>@on\<close> handlers and
  the \<^verbatim>\<open>action_*\<close> methods that forward to them), the two entry points the file
  explorer and the playlist call, and one pass of the watchdog thread.
\<close>

datatype command =
    Cmd_play_song "string option" bool
  | Cmd_play_from_playlist string string
  | Cmd_toggle_play
  | Cmd_stop_song
  | Cmd_next_song
  | Cmd_previous_song
  | Cmd_increase_volume
  | Cmd_decrease_volume
  | Cmd_loop
  | Cmd_shuffle
  | Cmd_monitor bool

fun run_command :: "env \<Rightarrow> real \<Rightarrow> nat \<Rightarrow> command \<Rightarrow> player \<Rightarrow> result" where
  "run_command E step d (Cmd_play_song media from_playlist) s = play_song E d media from_playlist s"
| "run_command E step d (Cmd_play_from_playlist title path) s =
     play_from_playlist E d (title, path) s"
| "run_command E step d Cmd_toggle_play s = toggle_play_state E d s"
| "run_command E step d Cmd_stop_song s = Inr (action_stop_song s)"
| "run_command E step d Cmd_next_song s = next_song E d s"
| "run_command E step d Cmd_previous_song s = previous_song E d s"
| "run_command E step d Cmd_increase_volume s = Inr (increase_media_volume step s)"
| "run_command E step d Cmd_decrease_volume s = Inr (decrease_media_volume step s)"
| "run_command E step d Cmd_loop s = Inr (change_loop_state s)"
| "run_command E step d Cmd_shuffle s = toggle_shuffle_state E s"
| "run_command E step d (Cmd_monitor busy) s = monitor_iteration E d busy s"

text \<open>The object a call leaves behind, and the exception it raised, if any.\<close>

fun final :: "result \<Rightarrow> player" where
  "final (Inl (e, s)) = s"
| "final (Inr s) = s"

fun raised :: "result \<Rightarrow> error option" where
  "raised (Inl (e, s)) = Some e"
| "raised (Inr s) = None"

text \<open>
  The states the player can be in: it starts as \<^verbatim>\<open>__init__\<close> leaves it, the playlist
  widget may replace the contents of \<open>songs\<close> at any time, and every command runs in
  some environment, with some volume step and some room on the stack. A command that
  raises leaves the object as it was at the raise.
\<close>

inductive reachable :: "player \<Rightarrow> bool" where
  reachable_init: "reachable init_player"
| reachable_playlist: "reachable s \<Longrightarrow> reachable (s\<lparr>songs := xs\<rparr>)"
| reachable_command: "reachable s \<Longrightarrow> reachable (final (run_command E step d c s))"

subsection \<open>Concrete environments and states\<close>

definition accepting :: env where
  "accepting = \<lparr> play = (\<lambda>h m. True), get_metadata = (\<lambda>m. (m, [], [], 0)),
                 shuffle_list = rev \<rparr>"

definition rejecting :: env where
  "rejecting = \<lparr> play = (\<lambda>h m. False), get_metadata = (\<lambda>m. (m, [], [], 0)),
                 shuffle_list = rev \<rparr>"

definition two_songs :: "(string \<times> string) list" where
  "two_songs = [(''A'', ''/a.mp3''), (''B'', ''/b.mp3'')]"

text \<open>
  What \<^verbatim>\<open>play_from_playlist(("A", "/a.mp3"))\<close> leaves when it is the first thing ever
  played and the output rejects the file: a selection, and no \<^verbatim>\<open>playing_song\<close>.
\<close>

definition rejected_first :: "string \<Rightarrow> string \<Rightarrow> player" where
  "rejected_first title path =
     final (play_from_playlist rejecting 3 (title, path) (init_player\<lparr>songs := two_songs\<rparr>))"

text \<open>
  Track A was started from the playlist \<open>two_songs\<close> and is playing; the playlist widget
  has since been left with the entries \<open>now\<close>.
\<close>

definition playing_A :: "(string \<times> string) list \<Rightarrow> player" where
  "playing_A now =
     (final (play_from_playlist accepting 3 (''A'', ''/a.mp3'')
               (init_player\<lparr>songs := two_songs\<rparr>)))\<lparr>songs := now\<rparr>"

text \<open>A file opened from the file explorer is playing, with loop set to ONE.\<close>

definition looping_file :: player where
  "looping_file =
     change_loop_state (final (play_song accepting 3 (Some ''/a.mp3'') False init_player))"

text \<open>The playlist [A, B] with shuffle switched on from the initial state.\<close>

definition shuffled_two :: player where
  "shuffled_two =
     final (run_command accepting (1 / 20) 3 Cmd_shuffle (init_player\<lparr>songs := two_songs\<rparr>))"

text \<open>The shuffle flag is only ever on with a snapshot to go back to.\<close>

definition snapshot_kept :: "player \<Rightarrow> bool" where
  "snapshot_kept s \<longleftrightarrow> (shuffle s \<longrightarrow> current_playlist s \<noteq> None)"

section \<open>Properties\<close>

subsection \<open>Python primitives\<close>


lemma index_of_None: "index_of xs x = None \<longleftrightarrow> x \<notin> set xs"
  by (induction xs) auto


lemma dict_set_fresh: "k \<notin> fst ` set d \<Longrightarrow> dict_set d k v = d @ [(k, v)]"
  by (induction d) auto

lemma dict_fold_distinct:
  "distinct (map fst (acc @ xs)) \<Longrightarrow>
   foldl (\<lambda>d (k, v). dict_set d k v) acc xs = acc @ xs"
proof (induction xs arbitrary: acc)
  case Nil
  then show ?case by simp
next
  case (Cons x xs)
  obtain k v where x: "x = (k, v)" by (cases x)
  from Cons.prems have fresh: "k \<notin> fst ` set acc" by (auto simp: x)
  from Cons.prems have "distinct (map fst ((acc @ [(k, v)]) @ xs))" by (simp add: x)
  from Cons.IH [OF this] show ?case by (simp add: x dict_set_fresh [OF fresh])
qed

text \<open>Building a dict from the items of a dict gives the same dict, in the same order.\<close>

lemma dict_of_distinct: "distinct (map fst xs) \<Longrightarrow> dict_of xs = xs"
  using dict_fold_distinct [of "[]" xs] by (simp add: dict_of_def)

lemma distinct_keys_mset:
  assumes "mset ys = mset xs" "distinct (map fst xs)"
  shows "distinct (map fst ys)"
proof -
  from assms(1) have "mset (map fst ys) = mset (map fst xs)" by (metis mset_map)
  then show ?thesis using assms(2) by (metis mset_eq_imp_distinct_iff)
qed

subsection \<open>The concrete states, written out\<close>

lemmas run_defs = play_from_playlist_def previous_song_def emit_def init_player_def
  accepting_def rejecting_def two_songs_def eval_nat_numeral Let_def

lemma rejected_first_eq:
  "path \<noteq> [] \<Longrightarrow> rejected_first title path =
     init_player\<lparr>songs := two_songs, playing_from_playlist := True,
       current_playlist_media := [''title'' \<mapsto> title, ''path'' \<mapsto> path],
       trace := [Ev_play path, Ev_notify ''Unable to play the media file.'']\<rparr>"
  by (simp add: rejected_first_def run_defs)

lemma playing_A_eq:
  "playing_A now =
     init_player\<lparr>songs := now, playing_from_playlist := True,
       current_playlist_media := [''title'' \<mapsto> ''A'', ''path'' \<mapsto> ''/a.mp3''],
       trace := [Ev_play ''/a.mp3''], state := PLAYING, playing_song := Some ''/a.mp3'',
       audio_info := (''/a.mp3'', [], [], 0), monitor_alive := True\<rparr>"
  by (simp add: playing_A_def run_defs)

lemma looping_file_eq:
  "looping_file =
     init_player\<lparr>state := PLAYING, playing_song := Some ''/a.mp3'',
       audio_info := (''/a.mp3'', [], [], 0), monitor_alive := True,
       trace := [Ev_play ''/a.mp3''], loop := Loop_ONE\<rparr>"
  by (simp add: looping_file_def change_loop_state_def run_defs)

subsection \<open>Next and previous inside the playlist\<close>




text \<open>
  C7 says that without a current track both \<^verbatim>\<open>next_song\<close> and \<^verbatim>\<open>previous_song\<close>
  resolve to a stop. \<^verbatim>\<open>next_song\<close> returns at once when \<^verbatim>\<open>playing_song\<close> is not set;
  \<^verbatim>\<open>previous_song\<close> has no such test. After a first play from the playlist that the
  output rejected (selection B, no current track), \<^verbatim>\<open>previous_song\<close> starts track A,
  while \<^verbatim>\<open>next_song\<close> leaves everything as it is.
\<close>

theorem previous_song_without_current_track:
  "playing_song (rejected_first ''B'' ''/b.mp3'') = None
   \<and> raised (previous_song accepting 3 (rejected_first ''B'' ''/b.mp3'')) = None
   \<and> state (final (previous_song accepting 3 (rejected_first ''B'' ''/b.mp3''))) = PLAYING
   \<and> playing_song (final (previous_song accepting 3 (rejected_first ''B'' ''/b.mp3'')))
       = Some ''/a.mp3''
   \<and> next_song accepting 3 (rejected_first ''B'' ''/b.mp3'') =
       Inr (rejected_first ''B'' ''/b.mp3'')"
  by (simp add: rejected_first_eq run_defs)

subsection \<open>A selection that is no longer in the playlist\<close>

text \<open>
  C2 asks for a stop, without an error, when the displayed order is empty or no longer
  holds the selected title. The code looks the title up with \<^verbatim>\<open>titles.index\<close> and has
  no handler: with track A playing from the playlist and the playlist emptied, or left
  with B alone, both \<^verbatim>\<open>next_song\<close> and \<^verbatim>\<open>previous_song\<close> raise \<^verbatim>\<open>ValueError\<close> and
  change nothing.
\<close>

theorem stale_selection_raises:
  "next_song E 3 (playing_A []) = Inl (ValueError, playing_A [])
   \<and> previous_song E 3 (playing_A []) = Inl (ValueError, playing_A [])
   \<and> next_song E 3 (playing_A [(''B'', ''/b.mp3'')]) =
       Inl (ValueError, playing_A [(''B'', ''/b.mp3'')])
   \<and> previous_song E 3 (playing_A [(''B'', ''/b.mp3'')]) =
       Inl (ValueError, playing_A [(''B'', ''/b.mp3'')])"
  by (simp add: playing_A_eq run_defs)

subsection \<open>Stop\<close>

text \<open>
  C3 says that the stop command stops the output, sets the status to STOPPED and keeps
  the current track. \<^verbatim>\<open>action_stop_song\<close> stops the output and keeps the track, and
  leaves the status as it was: with track A playing, the status is still PLAYING
  afterwards.
\<close>

theorem action_stop_song_keeps_state:
  "state (playing_A two_songs) = PLAYING
   \<and> state (action_stop_song (playing_A two_songs)) = PLAYING
   \<and> trace (action_stop_song (playing_A two_songs)) = [Ev_play ''/a.mp3'', Ev_stop]
   \<and> playing_song (action_stop_song (playing_A two_songs)) = Some ''/a.mp3''"
  by (simp add: action_stop_song_def playing_A_eq init_player_def emit_def)

subsection \<open>The transition guard\<close>

text \<open>What \<^verbatim>\<open>play_song\<close> does hold: a call that returns has cleared the guard.\<close>

lemma play_song_clears_guard:
  "truthy media \<Longrightarrow> play_song E d media fp s = Inr s' \<Longrightarrow> \<not> state_switch s'"
  by (cases d) (auto simp: Let_def emit_def split: if_splits sum.splits)

text \<open>When the output rejects the media, the rest is \<^verbatim>\<open>next_song\<close>, then the warning.\<close>

lemma play_song_rejected:
  assumes "truthy media" "\<not> play E (trace s) (the media)"
  shows "play_song E (Suc d) media fp s =
     (case next_song E d
             (emit (Ev_play (the media))
                (s\<lparr>state_switch := True, playing_from_playlist := fp\<rparr>)) of
        Inl err \<Rightarrow> Inl err
      | Inr s3 \<Rightarrow>
          Inr ((emit (Ev_notify ''Unable to play the media file.'') s3)
                 \<lparr>state_switch := False\<rparr>))"
  using assms by (simp add: Let_def)

text \<open>
  With loop ONE the track \<^verbatim>\<open>next_song\<close> hands back to \<^verbatim>\<open>play_song\<close> is the current
  one. If the output rejects it, the two call each other until the stack is full,
  whatever its size.
\<close>

lemma retry_forever:
  "playing_song s = Some m \<Longrightarrow> m \<noteq> [] \<Longrightarrow> loop s = Loop_ONE \<Longrightarrow>
    (raised (play_song rejecting d (Some m) fp s) = Some RecursionError
       \<and> (0 < d \<or> state_switch s \<longrightarrow>
            state_switch (final (play_song rejecting d (Some m) fp s))))
    \<and> (raised (next_song rejecting d s) = Some RecursionError
       \<and> (state_switch s \<longrightarrow> state_switch (final (next_song rejecting d s))))"
proof (induction d arbitrary: s fp)
  case 0
  show ?case by simp
next
  case (Suc d)
  let ?s2 = "emit (Ev_play m) (s\<lparr>state_switch := True, playing_from_playlist := fp\<rparr>)"
  have s2: "playing_song ?s2 = Some m" "loop ?s2 = Loop_ONE" "state_switch ?s2"
    using Suc.prems by (simp_all add: emit_def)
  from Suc.IH [OF s2(1) Suc.prems(2) s2(2)] s2(3)
  have n: "raised (next_song rejecting d ?s2) = Some RecursionError"
    "state_switch (final (next_song rejecting d ?s2))" by blast+
  obtain s3 where s3: "next_song rejecting d ?s2 = Inl (RecursionError, s3)" "state_switch s3"
    using n by (cases "next_song rejecting d ?s2" rule: final.cases) auto
  have rej: "\<not> play rejecting (trace (s\<lparr>state_switch := True, playing_from_playlist := fp\<rparr>)) m"
    by (simp add: rejecting_def)
  have "play_song rejecting (Suc d) (Some m) fp s = Inl (RecursionError, s3)"
    using Suc.prems(2) rej s3(1) by (simp add: Let_def)
  with s3(2) have P: "raised (play_song rejecting (Suc d) (Some m) fp s) = Some RecursionError"
    "state_switch (final (play_song rejecting (Suc d) (Some m) fp s))" by simp_all
  have nx: "next_song rejecting (Suc d) s =
      play_song rejecting d (Some m) (playing_from_playlist s) s"
    using Suc.prems by simp
  from Suc.IH [OF Suc.prems, of "playing_from_playlist s"]
  have N: "raised (next_song rejecting (Suc d) s) = Some RecursionError"
    "state_switch s \<longrightarrow> state_switch (final (next_song rejecting (Suc d) s))"
    unfolding nx by blast+
  from P N show ?case by blast
qed

text \<open>
  C4 says that every call of \<^verbatim>\<open>play_song\<close> with a non-empty media ends with the guard
  cleared, and that a rejected media makes the player move on and warn instead of
  propagating an error. With a file playing under loop ONE that the output now rejects,
  \<^verbatim>\<open>play_song\<close> on that file ends in \<^verbatim>\<open>RecursionError\<close>, for every size of the stack,
  and the guard, clear before the call, is left set.
\<close>

theorem play_song_rejected_leaves_guard:
  "\<not> state_switch looping_file
   \<and> raised (play_song rejecting (Suc d) (Some ''/a.mp3'') False looping_file)
       = Some RecursionError
   \<and> state_switch (final (play_song rejecting (Suc d) (Some ''/a.mp3'') False looping_file))"
  using retry_forever [of looping_file "''/a.mp3''" "Suc d" False]
  by (simp add: looping_file_eq init_player_def)

subsection \<open>The watchdog\<close>

text \<open>
  C5: a pass of the watchdog loop that finds the transition guard set does nothing but
  sleep, whatever the status and whatever the output reports; in particular it does not
  call \<^verbatim>\<open>handle_song_end\<close>.
\<close>

theorem monitor_skips_during_switch:
  "state_switch s \<Longrightarrow> monitor_iteration E d busy s = Inr (emit (Ev_sleep (1 / 2)) s)"
  by (simp add: monitor_iteration_def)

theorem monitor_skips_during_switch_witness:
  "state_switch ((playing_A two_songs)\<lparr>state_switch := True\<rparr>)
   \<and> state ((playing_A two_songs)\<lparr>state_switch := True\<rparr>) = PLAYING
   \<and> monitor_iteration accepting 3 False ((playing_A two_songs)\<lparr>state_switch := True\<rparr>) =
       Inr (emit (Ev_sleep (1 / 2)) ((playing_A two_songs)\<lparr>state_switch := True\<rparr>))"
  using monitor_skips_during_switch
    [of "(playing_A two_songs)\<lparr>state_switch := True\<rparr>" accepting 3 False]
  by (simp add: playing_A_eq init_player_def)

text \<open>
  However many passes the loop makes while nothing is playing, it never sleeps: the
  state, with its trace, stays what \<^verbatim>\<open>__init__\<close> left.
\<close>

lemma monitor_spins_when_stopped:
  "monitor_song_end E d answers init_player = Inr init_player"
  by (induction answers) (simp_all add: monitor_iteration_def init_player_def)

text \<open>
  C8 says that every pass of the watchdog loop ends with a wait. A pass with the guard
  clear and the status not PLAYING, or with the output still busy, goes round without
  any call of \<^verbatim>\<open>sleep\<close>: the state, trace included, is what it was.
\<close>

theorem monitor_iteration_without_sleep:
  "monitor_iteration E d busy init_player = Inr init_player
   \<and> monitor_iteration E d True (playing_A two_songs) = Inr (playing_A two_songs)
   \<and> Ev_sleep (1 / 2) \<notin> set (trace init_player)
   \<and> Ev_sleep (1 / 2) \<notin> set (trace (playing_A two_songs))"
  by (simp add: monitor_iteration_def playing_A_eq init_player_def)

subsection \<open>Shuffle\<close>

text \<open>
  C6: on a playlist that is not empty, switching shuffle on and then off again gives
  back the displayed order there was before, whatever permutation
  \<^verbatim>\<open>random.shuffle\<close> produced in between.
\<close>

theorem shuffle_round_trip:
  assumes ne: "songs s \<noteq> []" and dk: "distinct (map fst (songs s))"
    and off: "\<not> shuffle s"
    and perm: "mset (shuffle_list E (songs s)) = mset (songs s)"
  shows "\<exists>s1 s2. toggle_shuffle_state E s = Inr s1 \<and> shuffle s1
           \<and> toggle_shuffle_state E' s1 = Inr s2 \<and> \<not> shuffle s2
           \<and> songs s2 = songs s"
proof -
  let ?sh = "shuffle_list E (songs s)"
  have sh: "dict_of ?sh = ?sh"
    by (rule dict_of_distinct [OF distinct_keys_mset [OF perm dk]])
  have shne: "?sh \<noteq> []" using perm ne by (metis mset_zero_iff)
  define s1 where "s1 = (emit Ev_playlist_populate (emit Ev_playlist_clear
       (s\<lparr>current_playlist := Some (songs s), songs := ?sh\<rparr>)))\<lparr>shuffle := True\<rparr>"
  have t1: "toggle_shuffle_state E s = Inr s1"
    using ne off by (simp add: toggle_shuffle_state_def Let_def sh s1_def emit_def)
  have f1: "shuffle s1" "songs s1 = ?sh" "current_playlist s1 = Some (songs s)"
    by (simp_all add: s1_def emit_def)
  define s2 where "s2 = (emit Ev_playlist_populate (emit Ev_playlist_clear
       (s1\<lparr>songs := songs s\<rparr>)))\<lparr>shuffle := False\<rparr>"
  have t2: "toggle_shuffle_state E' s1 = Inr s2"
    using f1 shne
    by (simp add: toggle_shuffle_state_def dict_of_distinct [OF dk] s2_def emit_def)
  have "\<not> shuffle s2" "songs s2 = songs s" by (simp_all add: s2_def emit_def)
  with t1 t2 f1(1) show ?thesis by blast
qed

theorem shuffle_round_trip_witness:
  "songs (init_player\<lparr>songs := two_songs\<rparr>) \<noteq> []
   \<and> (\<exists>s1 s2. toggle_shuffle_state accepting (init_player\<lparr>songs := two_songs\<rparr>) = Inr s1
         \<and> shuffle s1 \<and> toggle_shuffle_state accepting s1 = Inr s2 \<and> \<not> shuffle s2
         \<and> songs s2 = two_songs)"
  using shuffle_round_trip [of "init_player\<lparr>songs := two_songs\<rparr>" accepting accepting]
  by (simp add: init_player_def two_songs_def accepting_def)

subsection \<open>The shuffle snapshot\<close>

text \<open>
  \<^verbatim>\<open>play_song\<close> and \<^verbatim>\<open>next_song\<close> touch neither the shuffle flag nor the snapshot,
  whether they return or raise.
\<close>

lemma play_next_keep:
  "(shuffle (final (play_song E d media fp s)) = shuffle s
     \<and> current_playlist (final (play_song E d media fp s)) = current_playlist s)
   \<and> (shuffle (final (next_song E d s)) = shuffle s
     \<and> current_playlist (final (next_song E d s)) = current_playlist s)"
proof (induction d arbitrary: media fp s)
  case 0
  show ?case by simp
next
  case (Suc d)
  have P: "shuffle (final (play_song E (Suc d) media fp s)) = shuffle s
     \<and> current_playlist (final (play_song E (Suc d) media fp s)) = current_playlist s"
  proof -
    let ?s2 = "emit (Ev_play (the media))
                 (s\<lparr>state_switch := True, playing_from_playlist := fp\<rparr>)"
    from Suc.IH [of media fp ?s2] have
      "shuffle (final (next_song E d ?s2)) = shuffle s"
      "current_playlist (final (next_song E d ?s2)) = current_playlist s"
      by (simp_all add: emit_def)
    then show ?thesis
      by (cases "next_song E d ?s2" rule: final.cases) (simp_all add: Let_def emit_def)
  qed
  have N: "shuffle (final (next_song E (Suc d) s)) = shuffle s
     \<and> current_playlist (final (next_song E (Suc d) s)) = current_playlist s"
    using Suc.IH
    by (simp add: Let_def emit_def split: option.splits)
  from P N show ?case by blast
qed

lemma keep_play: "snapshot_kept s \<Longrightarrow> snapshot_kept (final (play_song E d media fp s))"
  using play_next_keep [of E d media fp s] by (simp add: snapshot_kept_def)

lemma keep_next: "snapshot_kept s \<Longrightarrow> snapshot_kept (final (next_song E d s))"
  using play_next_keep [of E d None False s] by (simp add: snapshot_kept_def)

lemma keep_upd [simp]:
  "snapshot_kept (s\<lparr>current_playlist_media := m\<rparr>) = snapshot_kept s"
  "snapshot_kept (s\<lparr>state := st\<rparr>) = snapshot_kept s"
  "snapshot_kept (s\<lparr>trace := tr\<rparr>) = snapshot_kept s"
  "snapshot_kept (s\<lparr>loop := l\<rparr>) = snapshot_kept s"
  "snapshot_kept (s\<lparr>volume := v\<rparr>) = snapshot_kept s"
  "snapshot_kept (s\<lparr>songs := xs\<rparr>) = snapshot_kept s"
  by (simp_all add: snapshot_kept_def)

lemma keep_previous: "snapshot_kept s \<Longrightarrow> snapshot_kept (final (previous_song E d s))"
  by (simp add: previous_song_def Let_def emit_def keep_play split: option.splits)

lemma keep_handle: "snapshot_kept s \<Longrightarrow> snapshot_kept (final (handle_song_end E d s))"
  by (simp add: handle_song_end_def keep_play keep_next)

lemma keep_monitor:
  "snapshot_kept s \<Longrightarrow> snapshot_kept (final (monitor_iteration E d busy s))"
  using keep_handle [of s E d]
  by (cases "handle_song_end E d s" rule: final.cases)
     (simp_all add: monitor_iteration_def emit_def)

lemma keep_toggle_play:
  "snapshot_kept s \<Longrightarrow> snapshot_kept (final (toggle_play_state E d s))"
  by (simp add: toggle_play_state_def emit_def keep_play)

lemma keep_shuffle: "snapshot_kept s \<Longrightarrow> snapshot_kept (final (toggle_shuffle_state E s))"
  by (auto simp: toggle_shuffle_state_def snapshot_kept_def emit_def Let_def
           split: option.splits)

lemma keep_command:
  "snapshot_kept s \<Longrightarrow> snapshot_kept (final (run_command E step d c s))"
  by (cases c)
     (simp_all add: keep_play keep_next keep_previous keep_monitor keep_toggle_play
        keep_shuffle play_from_playlist_def action_stop_song_def emit_def
        increase_media_volume_def decrease_media_volume_def change_loop_state_def Let_def)

lemma reachable_snapshot_kept: "reachable s \<Longrightarrow> snapshot_kept s"
proof (induction rule: reachable.induct)
  case reachable_init
  show ?case by (simp add: snapshot_kept_def init_player_def)
next
  case (reachable_playlist s xs)
  then show ?case by simp
next
  case (reachable_command s E step d c)
  from reachable_command.IH show ?case by (rule keep_command)
qed

lemma shuffled_two_eq:
  "shuffled_two =
     init_player\<lparr>songs := rev two_songs, current_playlist := Some two_songs,
       trace := [Ev_playlist_clear, Ev_playlist_populate], shuffle := True\<rparr>"
  by (simp add: shuffled_two_def toggle_shuffle_state_def dict_of_def run_defs)

text \<open>
  C10: in every state the player can reach from its initial state, by any commands, in
  any environment, with the playlist changed in between in any way, shuffle being on
  implies that the snapshot of the original order is there; so switching shuffle off
  never raises for want of a snapshot.
\<close>

theorem shuffle_has_snapshot:
  "reachable s \<Longrightarrow>
   (shuffle s \<longrightarrow> current_playlist s \<noteq> None) \<and> raised (toggle_shuffle_state E s) = None"
  using reachable_snapshot_kept [of s]
  by (auto simp: snapshot_kept_def toggle_shuffle_state_def Let_def split: option.splits)

theorem shuffle_has_snapshot_witness:
  "reachable shuffled_two \<and> shuffle shuffled_two \<and> current_playlist shuffled_two \<noteq> None
   \<and> raised (toggle_shuffle_state accepting shuffled_two) = None"
proof -
  have r: "reachable shuffled_two"
    unfolding shuffled_two_def by (intro reachable_command reachable_playlist reachable_init)
  have "shuffle shuffled_two" by (simp add: shuffled_two_eq)
  with r shuffle_has_snapshot [OF r, of accepting] show ?thesis by simp
qed

subsection \<open>Volume\<close>

lemma increase_at_top:
  "0 \<le> step \<Longrightarrow> volume s = 1 \<Longrightarrow> volume ((increase_media_volume step ^^ n) s) = 1"
  by (induction n) (simp_all add: increase_media_volume_def emit_def Let_def)

lemma decrease_at_bottom:
  "0 \<le> step \<Longrightarrow> volume s = 0 \<Longrightarrow> volume ((decrease_media_volume step ^^ n) s) = 0"
  by (induction n) (simp_all add: decrease_media_volume_def emit_def Let_def)

text \<open>
  C9: from a volume in [0, 1] and with a step that is not negative, one increase gives
  the sum clamped to [0, 1] and one decrease the difference clamped to [0, 1]; any
  number of increases from 1 stays at 1 and any number of decreases from 0 stays at 0.
  Python's floats are read as real numbers here; the claim compares the result with the
  clamp of the very sum or difference the code computes, so only the order matters.
\<close>

theorem volume_step_clamped:
  assumes "0 \<le> volume s" "volume s \<le> 1" "0 \<le> step"
  shows "volume (increase_media_volume step s) = max 0 (min 1 (volume s + step))
       \<and> volume (decrease_media_volume step s) = max 0 (min 1 (volume s - step))
       \<and> volume ((increase_media_volume step ^^ n) (s\<lparr>volume := 1\<rparr>)) = 1
       \<and> volume ((decrease_media_volume step ^^ n) (s\<lparr>volume := 0\<rparr>)) = 0"
proof -
  have "volume (increase_media_volume step s) = max 0 (min 1 (volume s + step))"
    using assms by (simp add: increase_media_volume_def emit_def Let_def max_def min_def)
  moreover have "volume (decrease_media_volume step s) = max 0 (min 1 (volume s - step))"
    using assms by (simp add: decrease_media_volume_def emit_def Let_def max_def min_def)
  moreover have "volume ((increase_media_volume step ^^ n) (s\<lparr>volume := 1\<rparr>)) = 1"
    using assms(3) by (simp add: increase_at_top)
  moreover have "volume ((decrease_media_volume step ^^ n) (s\<lparr>volume := 0\<rparr>)) = 0"
    using assms(3) by (simp add: decrease_at_bottom)
  ultimately show ?thesis by blast
qed

theorem volume_step_clamped_witness:
  "0 \<le> volume (init_player\<lparr>volume := 49 / 50\<rparr>)
   \<and> volume (init_player\<lparr>volume := 49 / 50\<rparr>) \<le> 1
   \<and> (0::real) \<le> 1 / 20
   \<and> volume (increase_media_volume (1 / 20) (init_player\<lparr>volume := 49 / 50\<rparr>)) = 1
   \<and> volume (decrease_media_volume (1 / 20) (init_player\<lparr>volume := 49 / 50\<rparr>)) = 93 / 100
   \<and> volume ((increase_media_volume (1 / 20) ^^ 3) (init_player\<lparr>volume := 1\<rparr>)) = 1
   \<and> volume ((decrease_media_volume (1 / 20) ^^ 3) (init_player\<lparr>volume := 0\<rparr>)) = 0"
  using volume_step_clamped [of "init_player\<lparr>volume := 49 / 50\<rparr>" "1 / 20" 3]
  by (simp add: init_player_def)

end
